theory Spec2Isabelle
  imports Main "HOL-Library.Word"
begin

section \<open>AudioTrackStream: data model\<close>

text \<open>
  Embedding of \<^verbatim>\<open>library/jni/openslmediaplayer/source/AudioTrackStream.cpp\<close>.
  The class \<^verbatim>\<open>AudioTrackStream\<close> is a record of its member variables; every member
  function takes the object and returns the updated object together with its return
  code and the log of the calls it made on its collaborators (JNI, pthreads, the
  \<^verbatim>\<open>AudioTrack\<close> sink, the render callback). What a collaborator answers is an input of
  the model. A member \<^verbatim>\<open>x_\<close> of the class is the field \<open>this_x\<close> of the record (a record
  field cannot end in an underscore).
\<close>

type_synonym uint32_t = "32 word"
type_synonym int32_t = "32 word"  \<comment> \<open>two's complement, read with \<open>sint\<close>\<close>
type_synonym size_t = "64 word"  \<comment> \<open>LP64 target; an \<open>int32_t\<close> converts with \<open>scast\<close>\<close>

type_synonym pthread_t = nat  \<comment> \<open>\<open>0\<close> is the "no thread" value tested by \<open>!pt_handle_\<close>\<close>
type_synonym JavaVM = nat
type_synonym JNIEnv = nat
type_synonym render_callback_func_t = nat  \<comment> \<open>a non-null function pointer\<close>
type_synonym callback_args_t = nat  \<comment> \<open>a non-null \<open>void *\<close>\<close>

text \<open>
  \<^verbatim>\<open>sample_format_type\<close> is declared in a header outside this file; the last
  constructor stands for every value that is neither of the two named ones.
\<close>

datatype sample_format_type =
    kAudioSampleFormatType_S16
  | kAudioSampleFormatType_F32
  | kAudioSampleFormatType_other int

text \<open>The values of \<^verbatim>\<open>AudioFormat::ENCODING_*\<close> that \<^verbatim>\<open>getAudioFormat\<close> may return.\<close>

datatype encoding =
    ENCODING_PCM_16BIT
  | ENCODING_PCM_FLOAT
  | ENCODING_other int

datatype track_mode = MODE_STREAM

datatype result_code =
    OSLMP_RESULT_SUCCESS
  | OSLMP_RESULT_ILLEGAL_ARGUMENT
  | OSLMP_RESULT_ILLEGAL_STATE
  | OSLMP_RESULT_INTERNAL_ERROR

text \<open>
  An \<^verbatim>\<open>AudioTrack\<close> object as this file sees it: its identity and the three getters the
  worker reads.
\<close>

record AudioTrack =
  track_id :: nat
  getAudioFormat :: encoding
  getChannelCount :: int32_t
  supportsByteBufferMethods :: bool

text \<open>The argument list of \<^verbatim>\<open>AudioTrack::create\<close> (after \<^verbatim>\<open>env\<close>).\<close>

record create_args =
  arg_stream_type :: int32_t
  arg_sample_rate_in_hz :: uint32_t
  arg_num_channels :: uint32_t
  arg_encoding :: encoding
  arg_buffer_size :: uint32_t
  arg_mode :: track_mode
  arg_session_id :: int32_t

record AudioTrackStream =
  this_vm :: "JavaVM option"
  this_env :: "JNIEnv option"
  this_track :: "AudioTrack option"
  this_pt_handle :: pthread_t
  this_buffer_size_in_frames :: uint32_t
  this_buffer_block_count :: uint32_t
  this_callback_func :: "render_callback_func_t option"
  this_callback_args :: "callback_args_t option"
  this_stop_request :: bool

text \<open>
  Calls made by the control thread. \<open>PthreadCreate\<close> and \<open>PthreadJoin\<close> carry the object
  as it is at the moment of the call, which is what the worker thread sees through
  \<^verbatim>\<open>this\<close>; \<open>PthreadCreate\<close> also carries what \<^verbatim>\<open>pthread_create\<close> answered.
\<close>

datatype ctl_event =
    GetJavaVM
  | NewAudioTrack bool
  | TrackCreate create_args bool
  | TrackDelete nat
  | TrackRelease nat
  | PthreadCreate AudioTrackStream "pthread_t option"
  | PthreadJoin pthread_t AudioTrackStream

text \<open>What the platform answers during \<^verbatim>\<open>init\<close>.\<close>

record init_env =
  get_java_vm :: "JavaVM option"  \<comment> \<open>\<open>None\<close>: \<open>GetJavaVM\<close> did not return \<open>JNI_OK\<close>\<close>
  new_track :: "nat option"  \<comment> \<open>the new object; \<open>None\<close>: \<open>new(std::nothrow)\<close> returned null\<close>
  create_track :: "create_args \<Rightarrow> AudioTrack option"  \<comment> \<open>\<open>None\<close>: \<open>create\<close> returned false\<close>

section \<open>Constructor, init, start, stop\<close>

definition AudioTrackStream_new :: AudioTrackStream where
  "AudioTrackStream_new =
     \<lparr>this_vm = None, this_env = None, this_track = None, this_pt_handle = 0,
      this_buffer_size_in_frames = 0, this_buffer_block_count = 0,
      this_callback_func = None, this_callback_args = None, this_stop_request = False\<rparr>"

definition format_encoding :: "sample_format_type \<Rightarrow> encoding option" where
  "format_encoding format =
     (case format of
        kAudioSampleFormatType_S16 \<Rightarrow> Some ENCODING_PCM_16BIT
      | kAudioSampleFormatType_F32 \<Rightarrow> Some ENCODING_PCM_FLOAT
      | kAudioSampleFormatType_other _ \<Rightarrow> None)"

definition init_create_args ::
  "int32_t \<Rightarrow> uint32_t \<Rightarrow> uint32_t \<Rightarrow> encoding \<Rightarrow> uint32_t \<Rightarrow> uint32_t \<Rightarrow> create_args" where
  "init_create_args stream_type sample_rate_in_hz num_channels enc
       buffer_size_in_frames buffer_block_count =
     \<lparr>arg_stream_type = stream_type, arg_sample_rate_in_hz = sample_rate_in_hz,
      arg_num_channels = num_channels, arg_encoding = enc,
      arg_buffer_size = buffer_size_in_frames * buffer_block_count * 1,
      arg_mode = MODE_STREAM, arg_session_id = 0\<rparr>"

text \<open>
  The object allocated by \<^verbatim>\<open>new\<close> gets its identity from \<open>new_track\<close> and the answers of
  its getters from \<open>create_track\<close>. The assignment \<^verbatim>\<open>track_ = std::move(track)\<close> destroys
  the object the member held before (the \<^verbatim>\<open>unique_ptr\<close> deletes it), and the local
  \<^verbatim>\<open>track\<close> is deleted on the failure return; neither is a call of
  \<^verbatim>\<open>AudioTrack::release\<close>.
\<close>

definition init ::
  "init_env \<Rightarrow> JNIEnv \<Rightarrow> int32_t \<Rightarrow> sample_format_type \<Rightarrow> uint32_t \<Rightarrow> uint32_t \<Rightarrow>
   uint32_t \<Rightarrow> uint32_t \<Rightarrow> AudioTrackStream \<Rightarrow> result_code \<times> AudioTrackStream \<times> ctl_event list" where
  "init E env stream_type format sample_rate_in_hz num_channels
       buffer_size_in_frames buffer_block_count s =
     (case format_encoding format of
        None \<Rightarrow> (OSLMP_RESULT_ILLEGAL_ARGUMENT, s, [])
      | Some enc \<Rightarrow>
          if num_channels \<noteq> 2 then (OSLMP_RESULT_ILLEGAL_ARGUMENT, s, [])
          else (case get_java_vm E of
            None \<Rightarrow> (OSLMP_RESULT_INTERNAL_ERROR, s, [GetJavaVM])
          | Some vm \<Rightarrow>
              (case new_track E of
                 None \<Rightarrow> (OSLMP_RESULT_INTERNAL_ERROR, s, [GetJavaVM, NewAudioTrack False])
               | Some fresh \<Rightarrow>
                   let a = init_create_args stream_type sample_rate_in_hz num_channels enc
                             buffer_size_in_frames buffer_block_count
                   in (case create_track E a of
                         None \<Rightarrow>
                           (OSLMP_RESULT_INTERNAL_ERROR, s,
                            [GetJavaVM, NewAudioTrack True, TrackCreate a False, TrackDelete fresh])
                       | Some track \<Rightarrow>
                           (OSLMP_RESULT_SUCCESS,
                            s\<lparr>this_vm := Some vm, this_env := Some env,
                              this_track := Some (track\<lparr>track_id := fresh\<rparr>),
                              this_buffer_size_in_frames := buffer_size_in_frames,
                              this_buffer_block_count := buffer_block_count\<rparr>,
                            [GetJavaVM, NewAudioTrack True, TrackCreate a True] @
                            (case this_track s of None \<Rightarrow> [] | Some old \<Rightarrow> [TrackDelete (track_id old)]))))))"

text \<open>
  \<^verbatim>\<open>start\<close>: the first argument is what \<^verbatim>\<open>pthread_create\<close> answers when it is called
  (\<open>None\<close>: a non-zero result; \<open>Some h\<close>: success with handle \<open>h\<close>).
\<close>

definition start ::
  "pthread_t option \<Rightarrow> render_callback_func_t option \<Rightarrow> callback_args_t option \<Rightarrow>
   AudioTrackStream \<Rightarrow> result_code \<times> AudioTrackStream \<times> ctl_event list" where
  "start pt_create callback args s =
     (if callback = None then (OSLMP_RESULT_ILLEGAL_ARGUMENT, s, [])
      else if this_track s = None then (OSLMP_RESULT_ILLEGAL_STATE, s, [])
      else
        let s1 = s\<lparr>this_callback_func := callback, this_callback_args := args\<rparr>
        in (case pt_create of
              None \<Rightarrow>
                (OSLMP_RESULT_INTERNAL_ERROR,
                 s1\<lparr>this_callback_func := None, this_callback_args := None\<rparr>,
                 [PthreadCreate s1 None])
            | Some pt_handle \<Rightarrow>
                (OSLMP_RESULT_SUCCESS, s1\<lparr>this_pt_handle := pt_handle\<rparr>,
                 [PthreadCreate s1 (Some pt_handle)])))"

text \<open>
  \<^verbatim>\<open>stop\<close>: \<^verbatim>\<open>pthread_join\<close> has no timeout. The first argument says whether the join
  comes back; when it does not, \<^verbatim>\<open>stop\<close> never returns (no return code) and the object
  stays as it was when the join began.
\<close>

definition stop ::
  "bool \<Rightarrow> AudioTrackStream \<Rightarrow> result_code option \<times> AudioTrackStream \<times> ctl_event list" where
  "stop joined s =
     (if this_pt_handle s = 0 then (Some OSLMP_RESULT_SUCCESS, s, [])
      else
        let s1 = s\<lparr>this_stop_request := True\<rparr>
        in if \<not> joined then (None, s1, [PthreadJoin (this_pt_handle s1) s1])
           else
             (Some OSLMP_RESULT_SUCCESS,
              s1\<lparr>this_pt_handle := 0, this_callback_func := None, this_callback_args := None,
                 this_stop_request := False\<rparr>,
              [PthreadJoin (this_pt_handle s1) s1]))"

text \<open>
  The destructor: a worker that exists is asked to stop and joined (the first argument
  says whether the join comes back, the first component of the result whether the
  destructor returned); then the sink is released when both \<^verbatim>\<open>env_\<close> and
  \<^verbatim>\<open>track_\<close> are set. A sink object still held afterwards is deleted with the
  member \<^verbatim>\<open>track_\<close>.
\<close>

definition AudioTrackStream_delete ::
  "bool \<Rightarrow> AudioTrackStream \<Rightarrow> bool \<times> AudioTrackStream \<times> ctl_event list" where
  "AudioTrackStream_delete joined s =
     (let s1 = (if this_pt_handle s \<noteq> 0 then s\<lparr>this_stop_request := True\<rparr> else s);
          join = (if this_pt_handle s \<noteq> 0 then [PthreadJoin (this_pt_handle s) s1] else [])
      in if this_pt_handle s \<noteq> 0 \<and> \<not> joined then (False, s1, join)
         else (case this_track s1 of
                 None \<Rightarrow> (True, s1\<lparr>this_vm := None\<rparr>, join)
               | Some track \<Rightarrow>
                   if this_env s1 \<noteq> None
                   then (True, s1\<lparr>this_track := None, this_vm := None\<rparr>,
                         join @ [TrackRelease (track_id track), TrackDelete (track_id track)])
                   else (True, s1\<lparr>this_track := None, this_vm := None\<rparr>,
                         join @ [TrackDelete (track_id track)])))"

text \<open>
  The lifecycle states of the specification, read off the members: a sink is held after
  a successful \<^verbatim>\<open>init\<close>, a thread handle while a worker exists.
\<close>

datatype lifecycle = Uninitialized | Initialized | Running

definition lifecycle_of :: "AudioTrackStream \<Rightarrow> lifecycle" where
  "lifecycle_of s =
     (if this_track s = None then Uninitialized
      else if this_pt_handle s = 0 then Initialized else Running)"

section \<open>The worker thread\<close>

text \<open>
  The worker runs beside the control thread. What it reads from outside its own code is
  an input: the answers of JNI and of the sink, and, for each pass through a loop, the
  value of \<^verbatim>\<open>stop_request_\<close> that the loop condition reads, the samples the render
  callback leaves in the buffer, and the result of the write. The other members do not
  change while a worker runs. The type \<open>'a\<close> is the content of one block of samples.

  The log records the calls on the sink, the callback, the allocations and the
  direct-buffer view; the bookkeeping of JNI local references (\<^verbatim>\<open>FindClass\<close>,
  \<^verbatim>\<open>GetMethodID\<close>, \<^verbatim>\<open>DeleteLocalRef\<close>) takes no part in the control flow and is
  left out.
\<close>

datatype write_mode = WRITE_BLOCKING

datatype 'a event =
    AttachCurrentThread bool
  | DetachCurrentThread
  | TrackPlay bool
  | TrackPause
  | TrackStop
  | NewShortArray int32_t bool
  | NewFloatArray int32_t bool
  | NewNativeArray sample_format_type int32_t bool
  | NewDirectByteBuffer size_t bool
  | SineFill 'a
  | ArrayAcquire
  | ArrayRelease
  | Callback render_callback_func_t 'a sample_format_type int32_t int32_t "callback_args_t option"
  | TrackWrite 'a int32_t int32_t "write_mode option" int32_t
  | TrackWriteBuffer 'a size_t write_mode int32_t
  | BufferRewind

record 'a iteration =
  stop_seen :: bool  \<comment> \<open>\<open>stop_request_\<close> as the loop condition reads it\<close>
  rendered :: 'a  \<comment> \<open>the buffer as the render callback leaves it\<close>
  write_result :: int32_t  \<comment> \<open>what \<open>AudioTrack::write\<close> returns\<close>

record 'a worker_env =
  attach_ok :: bool  \<comment> \<open>\<open>AttachCurrentThread\<close> returned \<open>JNI_OK\<close>\<close>
  play_ok :: bool  \<comment> \<open>\<open>play\<close> returned \<open>AudioTrack::SUCCESS\<close>\<close>
  jarray_ok :: bool  \<comment> \<open>\<open>NewShortArray\<close> / \<open>NewFloatArray\<close> returned non-null\<close>
  native_new_ok :: bool  \<comment> \<open>\<open>new T[n]\<close> did not throw\<close>
  byte_buffer_ok :: bool  \<comment> \<open>\<open>NewDirectByteBuffer\<close> returned non-null\<close>
  sine_tone :: 'a  \<comment> \<open>the block the sine loop computes (floating point, kept abstract)\<close>
  iterations :: "'a iteration list"

text \<open>
  How a run ends: the function returned; the inputs ran out while the loop was still
  going (\<open>Pending\<close>: it has not returned yet); or the process died (a throwing
  \<^verbatim>\<open>new\<close> inside a \<^verbatim>\<open>noexcept\<close> function, a call through a null pointer, a store
  past the end of an array).
\<close>

datatype outcome = Returned | Pending | Terminated

definition then_run :: "'a event list \<Rightarrow> 'a event list \<times> outcome \<Rightarrow> 'a event list \<times> outcome" where
  "then_run evs r = (evs @ fst r, snd r)"

subsection \<open>The four loops\<close>

fun sinkWriterThreadLoopS16_while ::
  "AudioTrackStream \<Rightarrow> int32_t \<Rightarrow> int32_t \<Rightarrow> int32_t \<Rightarrow> 'a iteration list \<Rightarrow>
   'a event list \<times> outcome" where
  "sinkWriterThreadLoopS16_while s num_channels buffer_size_in_frames num_data_write [] =
     ([], Pending)"
| "sinkWriterThreadLoopS16_while s num_channels buffer_size_in_frames num_data_write (it # its) =
     (if stop_seen it then ([], Returned)
      else (case this_callback_func s of
        None \<Rightarrow> ([ArrayAcquire], Terminated)
      | Some f \<Rightarrow>
          then_run
            [ArrayAcquire,
             Callback f (rendered it) kAudioSampleFormatType_S16 num_channels
               buffer_size_in_frames (this_callback_args s),
             ArrayRelease,
             TrackWrite (rendered it) 0 num_data_write None (write_result it)]
            (if write_result it \<noteq> num_data_write then ([], Returned)
             else sinkWriterThreadLoopS16_while s num_channels buffer_size_in_frames
                    num_data_write its)))"

definition sinkWriterThreadLoopS16 ::
  "AudioTrackStream \<Rightarrow> AudioTrack \<Rightarrow> 'a worker_env \<Rightarrow> 'a event list \<times> outcome" where
  "sinkWriterThreadLoopS16 s track E =
     (let num_channels = getChannelCount track;
          buffer_size_in_frames = this_buffer_size_in_frames s;
          num_data_write = num_channels * buffer_size_in_frames
      in if \<not> jarray_ok E
         then ([NewShortArray (num_channels * buffer_size_in_frames) False], Returned)
         else then_run [NewShortArray (num_channels * buffer_size_in_frames) True]
                (sinkWriterThreadLoopS16_while s num_channels buffer_size_in_frames
                   num_data_write (iterations E)))"

text \<open>
  The float loop over a Java array: the buffer is filled once with a sine tone, and the
  call of the render callback inside the loop is commented out in the source.

  The array has \<^verbatim>\<open>num_channels * buffer_size_in_frames\<close> elements (an \<^verbatim>\<open>int32_t\<close>
  product), while the sine loop runs \<^verbatim>\<open>i\<close> up to the unsigned member
  \<^verbatim>\<open>buffer_size_in_frames_\<close> and stores to \<^verbatim>\<open>p[2 * i]\<close> and \<^verbatim>\<open>p[2 * i + 1]\<close>.
  The stores stay inside the array exactly when twice the frame count is at most the
  array length; otherwise the loop writes past the array, which is undefined behaviour,
  and the run ends there (\<open>Terminated\<close>).
\<close>

definition sine_fill_in_bounds :: "AudioTrackStream \<Rightarrow> AudioTrack \<Rightarrow> bool" where
  "sine_fill_in_bounds s track =
     (2 * int (unat (this_buffer_size_in_frames s))
        \<le> sint (getChannelCount track * this_buffer_size_in_frames s))"

fun sinkWriterThreadLoopFloat_while ::
  "'a \<Rightarrow> int32_t \<Rightarrow> 'a iteration list \<Rightarrow> 'a event list \<times> outcome" where
  "sinkWriterThreadLoopFloat_while buffer num_data_write [] = ([], Pending)"
| "sinkWriterThreadLoopFloat_while buffer num_data_write (it # its) =
     (if stop_seen it then ([], Returned)
      else
        then_run
          [TrackWrite buffer 0 num_data_write (Some WRITE_BLOCKING) (write_result it)]
          (if write_result it \<noteq> num_data_write then ([], Returned)
           else sinkWriterThreadLoopFloat_while buffer num_data_write its))"

definition sinkWriterThreadLoopFloat ::
  "AudioTrackStream \<Rightarrow> AudioTrack \<Rightarrow> 'a worker_env \<Rightarrow> 'a event list \<times> outcome" where
  "sinkWriterThreadLoopFloat s track E =
     (let num_channels = getChannelCount track;
          buffer_size_in_frames = this_buffer_size_in_frames s;
          num_data_write = num_channels * buffer_size_in_frames
      in if \<not> jarray_ok E
         then ([NewFloatArray (num_channels * buffer_size_in_frames) False], Returned)
         else if \<not> sine_fill_in_bounds s track
         then ([NewFloatArray (num_channels * buffer_size_in_frames) True, ArrayAcquire],
               Terminated)
         else then_run
                [NewFloatArray (num_channels * buffer_size_in_frames) True,
                 ArrayAcquire, SineFill (sine_tone E), ArrayRelease]
                (sinkWriterThreadLoopFloat_while (sine_tone E) num_data_write (iterations E)))"

text \<open>
  The two loops over a direct byte buffer have the same \<^verbatim>\<open>while\<close> statement; they differ
  in the format constant and the sample size. \<^verbatim>\<open>write_result != bb.size()\<close> compares an
  \<^verbatim>\<open>int32_t\<close> with a \<^verbatim>\<open>size_t\<close>, so the left side is converted.
\<close>

fun sinkWriterThreadLoopByteBuffer_while ::
  "AudioTrackStream \<Rightarrow> sample_format_type \<Rightarrow> int32_t \<Rightarrow> int32_t \<Rightarrow> size_t \<Rightarrow>
   'a iteration list \<Rightarrow> 'a event list \<times> outcome" where
  "sinkWriterThreadLoopByteBuffer_while s format num_channels buffer_size_in_frames bb_size [] =
     ([], Pending)"
| "sinkWriterThreadLoopByteBuffer_while s format num_channels buffer_size_in_frames bb_size
       (it # its) =
     (if stop_seen it then ([], Returned)
      else (case this_callback_func s of
        None \<Rightarrow> ([], Terminated)
      | Some f \<Rightarrow>
          then_run
            [Callback f (rendered it) format num_channels buffer_size_in_frames
               (this_callback_args s),
             TrackWriteBuffer (rendered it) bb_size WRITE_BLOCKING (write_result it)]
            (if scast (write_result it) \<noteq> bb_size then ([], Returned)
             else then_run [BufferRewind]
                    (sinkWriterThreadLoopByteBuffer_while s format num_channels
                       buffer_size_in_frames bb_size its))))"

definition sinkWriterThreadLoopS16ByteBuffer ::
  "AudioTrackStream \<Rightarrow> AudioTrack \<Rightarrow> 'a worker_env \<Rightarrow> 'a event list \<times> outcome" where
  "sinkWriterThreadLoopS16ByteBuffer s track E =
     (let format = kAudioSampleFormatType_S16;
          num_channels = getChannelCount track;
          buffer_size_in_frames = this_buffer_size_in_frames s;
          num_data_write = num_channels * buffer_size_in_frames;
          num_data_write_in_bytes = (scast num_data_write :: size_t) * 2
      in if \<not> native_new_ok E
         then ([NewNativeArray format num_data_write False], Terminated)
         else if \<not> byte_buffer_ok E
         then ([NewNativeArray format num_data_write True,
                NewDirectByteBuffer num_data_write_in_bytes False], Returned)
         else then_run
                [NewNativeArray format num_data_write True,
                 NewDirectByteBuffer num_data_write_in_bytes True]
                (sinkWriterThreadLoopByteBuffer_while s format num_channels
                   buffer_size_in_frames num_data_write_in_bytes (iterations E)))"

definition sinkWriterThreadLoopFloatByteBuffer ::
  "AudioTrackStream \<Rightarrow> AudioTrack \<Rightarrow> 'a worker_env \<Rightarrow> 'a event list \<times> outcome" where
  "sinkWriterThreadLoopFloatByteBuffer s track E =
     (let format = kAudioSampleFormatType_F32;
          num_channels = getChannelCount track;
          buffer_size_in_frames = this_buffer_size_in_frames s;
          num_data_write = num_channels * buffer_size_in_frames;
          num_data_write_in_bytes = (scast num_data_write :: size_t) * 4
      in if \<not> native_new_ok E
         then ([NewNativeArray format num_data_write False], Terminated)
         else if \<not> byte_buffer_ok E
         then ([NewNativeArray format num_data_write True,
                NewDirectByteBuffer num_data_write_in_bytes False], Returned)
         else then_run
                [NewNativeArray format num_data_write True,
                 NewDirectByteBuffer num_data_write_in_bytes True]
                (sinkWriterThreadLoopByteBuffer_while s format num_channels
                   buffer_size_in_frames num_data_write_in_bytes (iterations E)))"

subsection \<open>Dispatch and thread entry\<close>

text \<open>The \<^verbatim>\<open>switch\<close> of \<^verbatim>\<open>sinkWriterThreadProcess\<close>: which loop runs.\<close>

definition selected_loop ::
  "AudioTrackStream \<Rightarrow> AudioTrack \<Rightarrow> 'a worker_env \<Rightarrow> 'a event list \<times> outcome" where
  "selected_loop s track E =
     (let format = getAudioFormat track;
          supports_bb = supportsByteBufferMethods track
      in case format of
           ENCODING_PCM_16BIT \<Rightarrow>
             if supports_bb then sinkWriterThreadLoopS16ByteBuffer s track E
             else sinkWriterThreadLoopS16 s track E
         | ENCODING_PCM_FLOAT \<Rightarrow>
             if supports_bb then sinkWriterThreadLoopFloatByteBuffer s track E
             else sinkWriterThreadLoopFloat s track E
         | ENCODING_other _ \<Rightarrow> ([], Returned))"

text \<open>
  What follows a call that may not come back: the events \<open>evs\<close> are appended only when
  the call returned.
\<close>

definition and_then :: "'a event list \<times> outcome \<Rightarrow> 'a event list \<Rightarrow> 'a event list \<times> outcome" where
  "and_then r evs = (if snd r = Returned then (fst r @ evs, Returned) else r)"

definition sinkWriterThreadProcess ::
  "AudioTrackStream \<Rightarrow> 'a worker_env \<Rightarrow> 'a event list \<times> outcome" where
  "sinkWriterThreadProcess s E =
     (case this_track s of
        None \<Rightarrow> ([], Terminated)
      | Some track \<Rightarrow>
          if play_ok E
          then then_run [TrackPlay True] (and_then (selected_loop s track E) [TrackPause, TrackStop])
          else ([TrackPlay False], Returned))"

definition sinkWriterThreadEntryFunc ::
  "AudioTrackStream \<Rightarrow> 'a worker_env \<Rightarrow> 'a event list \<times> outcome" where
  "sinkWriterThreadEntryFunc thiz E =
     (case this_vm thiz of
        None \<Rightarrow> ([], Terminated)
      | Some vm \<Rightarrow>
          if attach_ok E
          then then_run [AttachCurrentThread True]
                 (and_then (sinkWriterThreadProcess thiz E) [DetachCurrentThread])
          else ([AttachCurrentThread False], Returned))"

section \<open>Sequences of calls, trace properties, a running example\<close>

text \<open>
  The object after a sequence of calls from one control thread. A \<^verbatim>\<open>stop\<close> whose join
  never comes back has no next call, so \<open>Stop\<close> stands for a \<^verbatim>\<open>stop\<close> that returned.
\<close>

datatype call =
    Init init_env JNIEnv int32_t sample_format_type uint32_t uint32_t uint32_t uint32_t
  | Start "pthread_t option" "render_callback_func_t option" "callback_args_t option"
  | Stop

fun after_call :: "call \<Rightarrow> AudioTrackStream \<Rightarrow> AudioTrackStream" where
  "after_call (Init E env stream_type format rate num_channels frames blocks) s =
     fst (snd (init E env stream_type format rate num_channels frames blocks s))"
| "after_call (Start pt_create callback args) s = fst (snd (start pt_create callback args s))"
| "after_call Stop s = fst (snd (stop True s))"

fun after_calls :: "call list \<Rightarrow> AudioTrackStream \<Rightarrow> AudioTrackStream" where
  "after_calls [] s = s"
| "after_calls (c # cs) s = after_calls cs (after_call c s)"

text \<open>
  \<open>filled_writes cur evs\<close>: every write in \<open>evs\<close> sends the block that the render callback
  filled since the write before it (\<open>cur\<close> is the block filled and not yet written).
\<close>

fun filled_writes :: "'a option \<Rightarrow> 'a event list \<Rightarrow> bool" where
  "filled_writes cur [] = True"
| "filled_writes cur (Callback f b format num_channels frames args # evs) =
     filled_writes (Some b) evs"
| "filled_writes cur (TrackWrite b offset n mode r # evs) =
     (cur = Some b \<and> filled_writes None evs)"
| "filled_writes cur (TrackWriteBuffer b n mode r # evs) =
     (cur = Some b \<and> filled_writes None evs)"
| "filled_writes cur (e # evs) = filled_writes cur evs"

fun is_callback :: "'a event \<Rightarrow> bool" where
  "is_callback (Callback f b format num_channels frames args) = True"
| "is_callback e = False"

text \<open>
  \<^verbatim>\<open>start\<close> as the specification words it (section 4.2: "Stores callback+args, clears
  stop flag, spawns the worker thread"): the source's \<^verbatim>\<open>start\<close> with an assignment of
  \<^verbatim>\<open>false\<close> to the stop flag before the thread is created. It is compared with
  \<open>start\<close>, which has no such assignment.
\<close>

definition spec_start ::
  "pthread_t option \<Rightarrow> render_callback_func_t option \<Rightarrow> callback_args_t option \<Rightarrow>
   AudioTrackStream \<Rightarrow> result_code \<times> AudioTrackStream \<times> ctl_event list" where
  "spec_start pt_create callback args s =
     (if callback = None then (OSLMP_RESULT_ILLEGAL_ARGUMENT, s, [])
      else if this_track s = None then (OSLMP_RESULT_ILLEGAL_STATE, s, [])
      else
        let s1 = s\<lparr>this_callback_func := callback, this_callback_args := args,
                   this_stop_request := False\<rparr>
        in (case pt_create of
              None \<Rightarrow>
                (OSLMP_RESULT_INTERNAL_ERROR,
                 s1\<lparr>this_callback_func := None, this_callback_args := None\<rparr>,
                 [PthreadCreate s1 None])
            | Some pt_handle \<Rightarrow>
                (OSLMP_RESULT_SUCCESS, s1\<lparr>this_pt_handle := pt_handle\<rparr>,
                 [PthreadCreate s1 (Some pt_handle)])))"



text \<open>
  The configuration of the specification's scenarios: 44100 Hz, stereo, blocks of 256
  frames, 4 blocks, on a platform where every call succeeds and the sink reports the
  encoding and channel count it was created with.
\<close>

definition scenario_platform :: "bool \<Rightarrow> init_env" where
  "scenario_platform direct =
     \<lparr>get_java_vm = Some 1, new_track = Some 1,
      create_track = (\<lambda>a. Some \<lparr>track_id = 0, getAudioFormat = arg_encoding a,
                                getChannelCount = arg_num_channels a,
                                supportsByteBufferMethods = direct\<rparr>)\<rparr>"

definition scenario_initialized :: "sample_format_type \<Rightarrow> bool \<Rightarrow> AudioTrackStream" where
  "scenario_initialized format direct =
     after_call (Init (scenario_platform direct) 1 3 format 44100 2 256 4) AudioTrackStream_new"

definition scenario_running :: "sample_format_type \<Rightarrow> bool \<Rightarrow> AudioTrackStream" where
  "scenario_running format direct =
     after_call (Start (Some 7) (Some 1) None) (scenario_initialized format direct)"

definition pass :: "nat \<Rightarrow> int32_t \<Rightarrow> nat iteration" where
  "pass b r = \<lparr>stop_seen = False, rendered = b, write_result = r\<rparr>"

definition stop_pass :: "nat iteration" where
  "stop_pass = \<lparr>stop_seen = True, rendered = 0, write_result = 0\<rparr>"

definition scenario_worker :: "nat iteration list \<Rightarrow> nat worker_env" where
  "scenario_worker its =
     \<lparr>attach_ok = True, play_ok = True, jarray_ok = True, native_new_ok = True,
      byte_buffer_ok = True, sine_tone = 0, iterations = its\<rparr>"

text \<open>
  Whether a write result lets the selected loop go on: the element count for the loops
  over a Java array, the byte length of the block for the loops over a direct buffer.
\<close>

definition write_completes :: "AudioTrackStream \<Rightarrow> AudioTrack \<Rightarrow> int32_t \<Rightarrow> bool" where
  "write_completes s track r =
     (let num_data_write = getChannelCount track * this_buffer_size_in_frames s
      in if supportsByteBufferMethods track
         then (case getAudioFormat track of
                 ENCODING_PCM_16BIT \<Rightarrow> (scast r :: size_t) = scast num_data_write * 2
               | ENCODING_PCM_FLOAT \<Rightarrow> (scast r :: size_t) = scast num_data_write * 4
               | ENCODING_other _ \<Rightarrow> True)
         else r = num_data_write)"

section \<open>Properties of init\<close>

text \<open>
  C4. For every input, \<^verbatim>\<open>init\<close> with a format other than S16 and F32, or with a channel
  count other than 2, returns the illegal-argument code, leaves the object unchanged and
  makes no call at all (no sink is allocated or created). With valid arguments, when the
  allocation of the sink object or its \<^verbatim>\<open>create\<close> fails, \<^verbatim>\<open>init\<close> returns the
  internal-error code (and the object is unchanged).
\<close>

theorem init_rejects_bad_arguments:
  "((format \<noteq> kAudioSampleFormatType_S16 \<and> format \<noteq> kAudioSampleFormatType_F32)
      \<or> num_channels \<noteq> 2 \<longrightarrow>
      init E env stream_type format rate num_channels frames blocks s =
        (OSLMP_RESULT_ILLEGAL_ARGUMENT, s, []))
   \<and> (\<forall>enc. format_encoding format = Some enc \<and> num_channels = 2 \<and>
        (new_track E = None \<or>
         create_track E (init_create_args stream_type rate num_channels enc frames blocks) = None)
        \<longrightarrow>
        fst (init E env stream_type format rate num_channels frames blocks s) =
          OSLMP_RESULT_INTERNAL_ERROR
        \<and> fst (snd (init E env stream_type format rate num_channels frames blocks s)) = s)"
  by (cases format) (auto simp: init_def format_encoding_def Let_def split: option.splits)

theorem init_rejects_bad_arguments_witness:
  "init (scenario_platform False) 1 3 (kAudioSampleFormatType_other 5) 44100 2 256 4
      AudioTrackStream_new = (OSLMP_RESULT_ILLEGAL_ARGUMENT, AudioTrackStream_new, [])
   \<and> init (scenario_platform False) 1 3 kAudioSampleFormatType_S16 44100 1 256 4
      AudioTrackStream_new = (OSLMP_RESULT_ILLEGAL_ARGUMENT, AudioTrackStream_new, [])
   \<and> fst (init ((scenario_platform False)\<lparr>create_track := (\<lambda>a. None)\<rparr>) 1 3
          kAudioSampleFormatType_F32 44100 2 256 4 AudioTrackStream_new) =
       OSLMP_RESULT_INTERNAL_ERROR"
proof -
  have a: "kAudioSampleFormatType_other 5 \<noteq> kAudioSampleFormatType_S16
           \<and> kAudioSampleFormatType_other 5 \<noteq> kAudioSampleFormatType_F32"
    by simp
  have b: "(1 :: uint32_t) \<noteq> 2"
    by simp
  have c: "format_encoding kAudioSampleFormatType_F32 = Some ENCODING_PCM_FLOAT"
    by (simp add: format_encoding_def)
  have d: "create_track ((scenario_platform False)\<lparr>create_track := (\<lambda>a. None)\<rparr>)
             (init_create_args 3 44100 2 ENCODING_PCM_FLOAT 256 4) = None"
    by simp
  show ?thesis
    using a b c d
      init_rejects_bad_arguments [of "kAudioSampleFormatType_other 5" 2
        "scenario_platform False" 1 3 44100 256 4 AudioTrackStream_new]
      init_rejects_bad_arguments [of kAudioSampleFormatType_S16 1
        "scenario_platform False" 1 3 44100 256 4 AudioTrackStream_new]
      init_rejects_bad_arguments [of kAudioSampleFormatType_F32 2
        "(scenario_platform False)\<lparr>create_track := (\<lambda>a. None)\<rparr>" 1 3 44100 256 4
        AudioTrackStream_new]
    by blast
qed



text \<open>
  C10. \<^verbatim>\<open>init\<close> never looks at the state of the object: its return code is the same from
  every state. Called with valid arguments on an object that already holds a sink
  (with or without a worker), on a platform where the host lookup and the creation of
  the sink succeed, it returns the success code and stores the new sink in place of the
  old one; it never calls \<^verbatim>\<open>release\<close> on a sink (the old C++ object is only destroyed
  by the assignment), and the thread handle is left as it was.
\<close>

theorem init_ignores_state:
  "fst (init E env stream_type format rate num_channels frames blocks s) =
     fst (init E env stream_type format rate num_channels frames blocks s')
   \<and> (format_encoding format = Some enc \<and> num_channels = 2 \<and> get_java_vm E \<noteq> None
        \<and> new_track E = Some fresh
        \<and> create_track E (init_create_args stream_type rate num_channels enc frames blocks)
            = Some track
        \<and> this_track s = Some old \<longrightarrow>
      fst (init E env stream_type format rate num_channels frames blocks s) =
        OSLMP_RESULT_SUCCESS
      \<and> this_track (fst (snd (init E env stream_type format rate num_channels frames blocks s)))
          = Some (track\<lparr>track_id := fresh\<rparr>)
      \<and> this_pt_handle (fst (snd (init E env stream_type format rate num_channels frames blocks s)))
          = this_pt_handle s
      \<and> (\<forall>e \<in> set (snd (snd (init E env stream_type format rate num_channels frames blocks s))).
            \<forall>i. e \<noteq> TrackRelease i)
      \<and> TrackDelete (track_id old)
          \<in> set (snd (snd (init E env stream_type format rate num_channels frames blocks s))))"
  by (auto simp: init_def Let_def split: option.splits)

theorem init_ignores_state_witness:
  "lifecycle_of (scenario_running kAudioSampleFormatType_S16 False) = Running
   \<and> fst (init ((scenario_platform True)\<lparr>new_track := Some 2\<rparr>) 1 3
          kAudioSampleFormatType_F32 44100 2 256 4
          (scenario_running kAudioSampleFormatType_S16 False)) = OSLMP_RESULT_SUCCESS
   \<and> this_track (fst (snd (init ((scenario_platform True)\<lparr>new_track := Some 2\<rparr>) 1 3
          kAudioSampleFormatType_F32 44100 2 256 4
          (scenario_running kAudioSampleFormatType_S16 False)))) =
       Some \<lparr>track_id = 2, getAudioFormat = ENCODING_PCM_FLOAT, getChannelCount = 2,
             supportsByteBufferMethods = True\<rparr>
   \<and> this_pt_handle (fst (snd (init ((scenario_platform True)\<lparr>new_track := Some 2\<rparr>) 1 3
          kAudioSampleFormatType_F32 44100 2 256 4
          (scenario_running kAudioSampleFormatType_S16 False)))) = 7"
proof -
  let ?E = "(scenario_platform True)\<lparr>new_track := Some 2\<rparr>"
  let ?s = "scenario_running kAudioSampleFormatType_S16 False"
  let ?old = "\<lparr>track_id = 1, getAudioFormat = ENCODING_PCM_16BIT, getChannelCount = 2,
               supportsByteBufferMethods = False\<rparr>"
  let ?new = "\<lparr>track_id = 0, getAudioFormat = ENCODING_PCM_FLOAT, getChannelCount = 2,
               supportsByteBufferMethods = True\<rparr>"
  have s: "?s = \<lparr>this_vm = Some 1, this_env = Some 1, this_track = Some ?old,
                 this_pt_handle = 7, this_buffer_size_in_frames = 256,
                 this_buffer_block_count = 4, this_callback_func = Some 1,
                 this_callback_args = None, this_stop_request = False\<rparr>"
    by (simp add: scenario_running_def scenario_initialized_def scenario_platform_def
        init_def start_def format_encoding_def init_create_args_def AudioTrackStream_new_def)
  have h: "format_encoding kAudioSampleFormatType_F32 = Some ENCODING_PCM_FLOAT
           \<and> (2 :: uint32_t) = 2 \<and> get_java_vm ?E \<noteq> None \<and> new_track ?E = Some 2
           \<and> create_track ?E (init_create_args 3 44100 2 ENCODING_PCM_FLOAT 256 4) = Some ?new
           \<and> this_track ?s = Some ?old"
    unfolding s by (simp add: format_encoding_def scenario_platform_def init_create_args_def)
  have r: "lifecycle_of ?s = Running \<and> this_pt_handle ?s = 7"
    unfolding s by (simp add: lifecycle_of_def)
  show ?thesis
    using h r
      init_ignores_state [of ?E 1 3 kAudioSampleFormatType_F32 44100 2 256 4 ?s ?s
        ENCODING_PCM_FLOAT 2 ?new ?old]
    by simp
qed

section \<open>Properties of start and stop\<close>

text \<open>
  C5. \<^verbatim>\<open>start\<close> with a null callback returns the illegal-argument code, changes nothing
  and makes no call (no thread is created). When the callback is given, a sink is held
  and \<^verbatim>\<open>pthread_create\<close> fails, \<^verbatim>\<open>start\<close> returns the internal-error code with the
  stored callback and arguments cleared; the sink and the thread handle are as before,
  so an Initialized object stays Initialized.
\<close>

theorem start_failures:
  "start pt_create None args s = (OSLMP_RESULT_ILLEGAL_ARGUMENT, s, [])
   \<and> (callback \<noteq> None \<and> this_track s \<noteq> None \<longrightarrow>
        start None callback args s =
          (OSLMP_RESULT_INTERNAL_ERROR,
           s\<lparr>this_callback_func := None, this_callback_args := None\<rparr>,
           [PthreadCreate (s\<lparr>this_callback_func := callback, this_callback_args := args\<rparr>) None])
        \<and> this_track (fst (snd (start None callback args s))) = this_track s
        \<and> this_pt_handle (fst (snd (start None callback args s))) = this_pt_handle s
        \<and> lifecycle_of (fst (snd (start None callback args s))) = lifecycle_of s)"
  by (auto simp: start_def Let_def lifecycle_of_def)

theorem start_failures_witness:
  "lifecycle_of (scenario_initialized kAudioSampleFormatType_S16 False) = Initialized
   \<and> fst (start None (Some 1) (Some 9) (scenario_initialized kAudioSampleFormatType_S16 False))
       = OSLMP_RESULT_INTERNAL_ERROR
   \<and> this_callback_func (fst (snd (start None (Some 1) (Some 9)
        (scenario_initialized kAudioSampleFormatType_S16 False)))) = None
   \<and> this_callback_args (fst (snd (start None (Some 1) (Some 9)
        (scenario_initialized kAudioSampleFormatType_S16 False)))) = None
   \<and> lifecycle_of (fst (snd (start None (Some 1) (Some 9)
        (scenario_initialized kAudioSampleFormatType_S16 False)))) = Initialized"
proof -
  let ?s = "scenario_initialized kAudioSampleFormatType_S16 False"
  have h: "Some (1 :: nat) \<noteq> None \<and> this_track ?s \<noteq> None \<and> lifecycle_of ?s = Initialized"
    by (simp add: scenario_initialized_def scenario_platform_def init_def format_encoding_def
        init_create_args_def AudioTrackStream_new_def lifecycle_of_def)
  show ?thesis
    using h start_failures [of None "Some 9" ?s "Some 1"]
    by (auto simp: lifecycle_of_def split: if_splits)
qed

text \<open>
  C6. With no worker thread (\<^verbatim>\<open>pt_handle_\<close> is 0) \<^verbatim>\<open>stop\<close> returns the success code at
  once, changes nothing and makes no call. Otherwise it sets the stop flag and joins the
  worker with the flag set, whatever the join answers; while the join does not come
  back \<^verbatim>\<open>stop\<close> does not return; once it has, the handle, the callback and its
  arguments are cleared, the stop flag is false again, \<^verbatim>\<open>stop\<close> returns the success
  code, and an object that holds a sink is Initialized.
\<close>

theorem stop_behaviour:
  "(this_pt_handle s = 0 \<longrightarrow> stop joined s = (Some OSLMP_RESULT_SUCCESS, s, []))
   \<and> (this_pt_handle s \<noteq> 0 \<longrightarrow>
        stop False s =
          (None, s\<lparr>this_stop_request := True\<rparr>,
           [PthreadJoin (this_pt_handle s) (s\<lparr>this_stop_request := True\<rparr>)])
        \<and> stop True s =
          (Some OSLMP_RESULT_SUCCESS,
           s\<lparr>this_pt_handle := 0, this_callback_func := None, this_callback_args := None,
             this_stop_request := False\<rparr>,
           [PthreadJoin (this_pt_handle s) (s\<lparr>this_stop_request := True\<rparr>)])
        \<and> (this_track s \<noteq> None \<longrightarrow> lifecycle_of (fst (snd (stop True s))) = Initialized))"
  by (auto simp: stop_def Let_def lifecycle_of_def)

theorem stop_behaviour_witness:
  "stop True AudioTrackStream_new = (Some OSLMP_RESULT_SUCCESS, AudioTrackStream_new, [])
   \<and> fst (stop True (scenario_running kAudioSampleFormatType_S16 False)) =
       Some OSLMP_RESULT_SUCCESS
   \<and> lifecycle_of (fst (snd (stop True (scenario_running kAudioSampleFormatType_S16 False)))) =
       Initialized
   \<and> stop True (fst (snd (stop True (scenario_running kAudioSampleFormatType_S16 False)))) =
       (Some OSLMP_RESULT_SUCCESS,
        fst (snd (stop True (scenario_running kAudioSampleFormatType_S16 False))), [])"
proof -
  let ?s = "scenario_running kAudioSampleFormatType_S16 False"
  have a: "this_pt_handle AudioTrackStream_new = 0"
    by (simp add: AudioTrackStream_new_def)
  have b: "this_pt_handle ?s \<noteq> 0 \<and> this_track ?s \<noteq> None"
    by (simp add: scenario_running_def scenario_initialized_def scenario_platform_def
        init_def start_def format_encoding_def init_create_args_def AudioTrackStream_new_def)
  have c: "this_pt_handle (?s\<lparr>this_pt_handle := 0, this_callback_func := None,
             this_callback_args := None, this_stop_request := False\<rparr>) = 0"
    by simp
  show ?thesis
    using a b c
      stop_behaviour [of AudioTrackStream_new True]
      stop_behaviour [of ?s True]
      stop_behaviour [of "?s\<lparr>this_pt_handle := 0, this_callback_func := None,
             this_callback_args := None, this_stop_request := False\<rparr>" True]
    by (simp add: lifecycle_of_def)
qed

text \<open>
  C7 as the specification states it fails twice. A second \<^verbatim>\<open>start\<close> on a Running
  object succeeds, and a \<^verbatim>\<open>start\<close> with a null callback on an object that was never
  initialised returns the illegal-argument code, not the illegal-state code.
\<close>

theorem start_state_check_counterexample:
  "lifecycle_of (scenario_running kAudioSampleFormatType_S16 False) = Running
   \<and> fst (start (Some 8) (Some 1) None (scenario_running kAudioSampleFormatType_S16 False)) =
       OSLMP_RESULT_SUCCESS
   \<and> lifecycle_of AudioTrackStream_new = Uninitialized
   \<and> fst (start (Some 8) None None AudioTrackStream_new) = OSLMP_RESULT_ILLEGAL_ARGUMENT"
  by (simp add: scenario_running_def scenario_initialized_def scenario_platform_def
      init_def start_def format_encoding_def init_create_args_def AudioTrackStream_new_def
      lifecycle_of_def)

text \<open>
  C7, amended. \<^verbatim>\<open>start\<close> returns the illegal-state code exactly when the callback is
  not null and the object holds no sink (no \<^verbatim>\<open>init\<close> has succeeded on it); with a null
  callback it returns the illegal-argument code in every state. It does not test for a
  running worker: on a Running object a \<^verbatim>\<open>start\<close> with a callback returns the success
  code when the thread is created and the internal-error code when it is not.
\<close>

theorem start_illegal_state_iff:
  "(fst (start pt_create callback args s) = OSLMP_RESULT_ILLEGAL_STATE
      \<longleftrightarrow> callback \<noteq> None \<and> lifecycle_of s = Uninitialized)
   \<and> (callback = None \<longrightarrow>
        fst (start pt_create callback args s) = OSLMP_RESULT_ILLEGAL_ARGUMENT)
   \<and> (callback \<noteq> None \<and> lifecycle_of s = Running \<longrightarrow>
        fst (start (Some h) callback args s) = OSLMP_RESULT_SUCCESS
        \<and> fst (start None callback args s) = OSLMP_RESULT_INTERNAL_ERROR)"
  by (auto simp: start_def Let_def lifecycle_of_def split: option.splits if_splits)

theorem start_illegal_state_iff_witness:
  "fst (start (Some 8) (Some 1) None AudioTrackStream_new) = OSLMP_RESULT_ILLEGAL_STATE
   \<and> fst (start (Some 8) None None (scenario_initialized kAudioSampleFormatType_S16 False)) =
       OSLMP_RESULT_ILLEGAL_ARGUMENT
   \<and> fst (start None (Some 1) None (scenario_running kAudioSampleFormatType_S16 False)) =
       OSLMP_RESULT_INTERNAL_ERROR"
proof -
  let ?r = "scenario_running kAudioSampleFormatType_S16 False"
  have a: "Some (1 :: nat) \<noteq> None \<and> lifecycle_of AudioTrackStream_new = Uninitialized"
    by (simp add: AudioTrackStream_new_def lifecycle_of_def)
  have b: "lifecycle_of ?r = Running"
    by (simp add: scenario_running_def scenario_initialized_def scenario_platform_def
        init_def start_def format_encoding_def init_create_args_def AudioTrackStream_new_def
        lifecycle_of_def)
  show ?thesis
    using a b
      start_illegal_state_iff [of "Some 8" "Some 1" None AudioTrackStream_new 8]
      start_illegal_state_iff [of "Some 8" None None
        "scenario_initialized kAudioSampleFormatType_S16 False" 8]
      start_illegal_state_iff [of None "Some 1" None ?r 8]
    by simp
qed

section \<open>Properties of the call sequences\<close>

lemma init_keeps_stop_request:
  "this_stop_request (fst (snd (init E env stream_type format rate num_channels frames blocks s)))
     = this_stop_request s"
  by (simp add: init_def Let_def split: option.splits)

lemma start_keeps_stop_request:
  "this_stop_request (fst (snd (start pt_create callback args s))) = this_stop_request s"
  by (simp add: start_def Let_def split: option.splits)

lemma stop_clears_stop_request:
  "\<not> this_stop_request s \<Longrightarrow> \<not> this_stop_request (fst (snd (stop True s)))"
  by (simp add: stop_def Let_def)

lemma after_call_stop_request:
  "\<not> this_stop_request s \<Longrightarrow> \<not> this_stop_request (after_call c s)"
  by (cases c)
     (simp_all add: init_keeps_stop_request start_keeps_stop_request stop_clears_stop_request)

lemma after_calls_stop_request:
  "\<not> this_stop_request s \<Longrightarrow> \<not> this_stop_request (after_calls cs s)"
  by (induction cs arbitrary: s) (simp_all add: after_call_stop_request)

lemma stop_request_update_idem:
  "\<not> this_stop_request s \<Longrightarrow> s\<lparr>this_stop_request := False\<rparr> = s"
  by (cases s) simp

text \<open>
  C8. On every object reached from the constructor by calls of \<^verbatim>\<open>init\<close>, \<^verbatim>\<open>start\<close>
  and \<^verbatim>\<open>stop\<close> that returned, \<^verbatim>\<open>start\<close> does exactly what the \<^verbatim>\<open>start\<close> of the
  specification does, which clears the stop flag before it creates the thread. On a
  successful call the only call made is the creation of the thread, and the object the
  new thread is given holds the callback and the arguments and has the stop flag false;
  the object after the call is that object with the new thread handle. (The source has
  no assignment to the flag in \<^verbatim>\<open>start\<close>: the flag is false there because the
  constructor and \<^verbatim>\<open>stop\<close> leave it false.)
\<close>

theorem start_spawns_with_flag_clear:
  "s = after_calls cs AudioTrackStream_new \<longrightarrow>
   start pt_create callback args s = spec_start pt_create callback args s
   \<and> (\<forall>s' evs. start pt_create callback args s = (OSLMP_RESULT_SUCCESS, s', evs) \<longrightarrow>
         (\<exists>h snap. pt_create = Some h \<and> evs = [PthreadCreate snap (Some h)]
            \<and> snap = s\<lparr>this_callback_func := callback, this_callback_args := args\<rparr>
            \<and> this_callback_func snap = callback \<and> this_callback_args snap = args
            \<and> \<not> this_stop_request snap
            \<and> s' = snap\<lparr>this_pt_handle := h\<rparr> \<and> \<not> this_stop_request s'))"
proof
  assume s: "s = after_calls cs AudioTrackStream_new"
  have "\<not> this_stop_request (after_calls cs AudioTrackStream_new)"
    by (rule after_calls_stop_request) (simp add: AudioTrackStream_new_def)
  with s have flag: "\<not> this_stop_request s"
    by simp
  let ?s1 = "s\<lparr>this_callback_func := callback, this_callback_args := args\<rparr>"
  have "\<not> this_stop_request ?s1"
    using flag by simp
  then have same: "?s1\<lparr>this_stop_request := False\<rparr> = ?s1"
    by (rule stop_request_update_idem)
  have eq: "start pt_create callback args s = spec_start pt_create callback args s"
    by (simp add: start_def spec_start_def Let_def same)
  have spawn: "\<exists>h snap. pt_create = Some h \<and> evs = [PthreadCreate snap (Some h)]
            \<and> snap = ?s1
            \<and> this_callback_func snap = callback \<and> this_callback_args snap = args
            \<and> \<not> this_stop_request snap
            \<and> s' = snap\<lparr>this_pt_handle := h\<rparr> \<and> \<not> this_stop_request s'"
    if "start pt_create callback args s = (OSLMP_RESULT_SUCCESS, s', evs)" for s' evs
    using that flag
    by (auto simp: start_def Let_def split: if_splits option.splits)
  from eq spawn
  show "start pt_create callback args s = spec_start pt_create callback args s
   \<and> (\<forall>s' evs. start pt_create callback args s = (OSLMP_RESULT_SUCCESS, s', evs) \<longrightarrow>
         (\<exists>h snap. pt_create = Some h \<and> evs = [PthreadCreate snap (Some h)]
            \<and> snap = s\<lparr>this_callback_func := callback, this_callback_args := args\<rparr>
            \<and> this_callback_func snap = callback \<and> this_callback_args snap = args
            \<and> \<not> this_stop_request snap
            \<and> s' = snap\<lparr>this_pt_handle := h\<rparr> \<and> \<not> this_stop_request s'))"
    by blast
qed

theorem start_spawns_with_flag_clear_witness:
  "start (Some 8) (Some 2) (Some 9)
     (after_calls
        [Init (scenario_platform False) 1 3 kAudioSampleFormatType_S16 44100 2 256 4,
         Start (Some 7) (Some 1) None, Stop] AudioTrackStream_new) =
   spec_start (Some 8) (Some 2) (Some 9)
     (after_calls
        [Init (scenario_platform False) 1 3 kAudioSampleFormatType_S16 44100 2 256 4,
         Start (Some 7) (Some 1) None, Stop] AudioTrackStream_new)
   \<and> (\<exists>h snap.
         snd (snd (start (Some 8) (Some 2) (Some 9)
           (after_calls
              [Init (scenario_platform False) 1 3 kAudioSampleFormatType_S16 44100 2 256 4,
               Start (Some 7) (Some 1) None, Stop] AudioTrackStream_new))) =
           [PthreadCreate snap (Some h)]
         \<and> this_callback_func snap = Some 2 \<and> this_callback_args snap = Some 9
         \<and> \<not> this_stop_request snap)"
proof -
  let ?cs = "[Init (scenario_platform False) 1 3 kAudioSampleFormatType_S16 44100 2 256 4,
              Start (Some 7) (Some 1) None, Stop]"
  let ?s = "after_calls ?cs AudioTrackStream_new"
  have ok: "fst (start (Some 8) (Some 2) (Some 9) ?s) = OSLMP_RESULT_SUCCESS"
    by (simp add: scenario_platform_def init_def start_def stop_def format_encoding_def
        init_create_args_def AudioTrackStream_new_def)
  then obtain s' evs where
    run: "start (Some 8) (Some 2) (Some 9) ?s = (OSLMP_RESULT_SUCCESS, s', evs)"
    by (cases "start (Some 8) (Some 2) (Some 9) ?s") auto
  from start_spawns_with_flag_clear [of ?s ?cs "Some 8" "Some 2" "Some 9"] run
  have eq: "start (Some 8) (Some 2) (Some 9) ?s = spec_start (Some 8) (Some 2) (Some 9) ?s"
    and ex: "\<exists>h snap. evs = [PthreadCreate snap (Some h)]
            \<and> this_callback_func snap = Some 2 \<and> this_callback_args snap = Some 9
            \<and> \<not> this_stop_request snap"
    by blast+
  from run have evs: "snd (snd (start (Some 8) (Some 2) (Some 9) ?s)) = evs"
    by simp
  show ?thesis
    unfolding evs using eq ex by blast
qed

section \<open>Properties of the worker loops\<close>

lemma fst_then_run [simp]: "fst (then_run evs r) = evs @ fst r"
  by (simp add: then_run_def)

lemma snd_then_run [simp]: "snd (then_run evs r) = snd r"
  by (simp add: then_run_def)

subsection \<open>The loops over a direct byte buffer\<close>

lemma byte_buffer_while_head:
  "fst (sinkWriterThreadLoopByteBuffer_while s format num_channels frames bb_size its) = []
   \<or> (\<exists>f b evs.
        fst (sinkWriterThreadLoopByteBuffer_while s format num_channels frames bb_size its) =
          Callback f b format num_channels frames (this_callback_args s) # evs)"
  by (cases its) (auto split: option.splits)

lemma byte_buffer_while_write:
  "fst (sinkWriterThreadLoopByteBuffer_while s format num_channels frames bb_size its) =
     pre @ TrackWriteBuffer b n mode r # post \<Longrightarrow>
   n = bb_size \<and>
   (if scast r = bb_size
    then \<exists>post'. post = BufferRewind # post' \<and>
           (post' = [] \<or>
            (\<exists>f b' evs. post' =
               Callback f b' format num_channels frames (this_callback_args s) # evs))
    else post = [] \<and>
         snd (sinkWriterThreadLoopByteBuffer_while s format num_channels frames bb_size its) =
           Returned)"
proof (induction its arbitrary: pre)
  case Nil
  then show ?case by simp
next
  case (Cons it its)
  let ?rest = "sinkWriterThreadLoopByteBuffer_while s format num_channels frames bb_size its"
  from Cons.prems have go: "\<not> stop_seen it"
    by (auto split: if_splits)
  from Cons.prems go obtain f where f: "this_callback_func s = Some f"
    by (cases "this_callback_func s") auto
  let ?cb = "Callback f (rendered it) format num_channels frames (this_callback_args s)"
  let ?wr = "TrackWriteBuffer (rendered it) bb_size WRITE_BLOCKING (write_result it)"
  show ?case
  proof (cases "scast (write_result it) = bb_size")
    case False
    with Cons.prems go f have "[?cb, ?wr] = pre @ TrackWriteBuffer b n mode r # post"
      by simp
    then have "pre = [?cb] \<and> TrackWriteBuffer b n mode r = ?wr \<and> post = []"
      by (auto simp: Cons_eq_append_conv)
    with False go f show ?thesis
      by auto
  next
    case True
    with Cons.prems go f
    have eq: "?cb # ?wr # BufferRewind # fst ?rest = pre @ TrackWriteBuffer b n mode r # post"
      by simp
    then consider
        (here) "pre = [?cb]" "TrackWriteBuffer b n mode r = ?wr" "post = BufferRewind # fst ?rest"
      | (later) pre' where "pre = ?cb # ?wr # BufferRewind # pre'"
          "fst ?rest = pre' @ TrackWriteBuffer b n mode r # post"
      by (auto simp: Cons_eq_append_conv)
    then show ?thesis
    proof cases
      case here
      with True byte_buffer_while_head [of s format num_channels frames bb_size its]
      show ?thesis
        by auto
    next
      case later
      from Cons.IH [OF later(2)] True go f show ?thesis
        by simp
    qed
  qed
qed

text \<open>
  C3. In both loops over a direct byte buffer, every write goes through the view with
  the byte length of the block. After a write whose result equals that length the next
  call is the rewind of the view, and what follows the rewind, if anything, is the next
  call of the render callback. After a write with any other result nothing more happens
  in the loop (no rewind, no second write) and the loop has returned.
\<close>

theorem byte_buffer_loops_rewind:
  "(loop = sinkWriterThreadLoopS16ByteBuffer \<and> sample_size = 2
      \<and> format = kAudioSampleFormatType_S16
    \<or> loop = sinkWriterThreadLoopFloatByteBuffer \<and> sample_size = 4
      \<and> format = kAudioSampleFormatType_F32)
   \<and> fst (loop s track E) = pre @ TrackWriteBuffer b n mode r # post \<longrightarrow>
   n = scast (getChannelCount track * this_buffer_size_in_frames s) * sample_size
   \<and> (scast r = n \<longrightarrow>
        (\<exists>post'. post = BufferRewind # post' \<and>
           (post' = [] \<or>
            (\<exists>f b' evs. post' =
               Callback f b' format (getChannelCount track) (this_buffer_size_in_frames s)
                 (this_callback_args s) # evs))))
   \<and> (scast r \<noteq> n \<longrightarrow> post = [] \<and> snd (loop s track E) = Returned)"
proof (intro impI, elim conjE)
  let ?n = "getChannelCount track * this_buffer_size_in_frames s"
  assume which:
    "loop = sinkWriterThreadLoopS16ByteBuffer \<and> sample_size = 2
       \<and> format = kAudioSampleFormatType_S16
     \<or> loop = sinkWriterThreadLoopFloatByteBuffer \<and> sample_size = 4
       \<and> format = kAudioSampleFormatType_F32"
  assume tr: "fst (loop s track E) = pre @ TrackWriteBuffer b n mode r # post"
  let ?while = "sinkWriterThreadLoopByteBuffer_while s format (getChannelCount track)
                  (this_buffer_size_in_frames s) (scast ?n * sample_size) (iterations E)"
  from which tr have ok: "native_new_ok E \<and> byte_buffer_ok E"
    by (auto simp: sinkWriterThreadLoopS16ByteBuffer_def sinkWriterThreadLoopFloatByteBuffer_def
        Let_def Cons_eq_append_conv split: if_splits)
  with which have run:
    "fst (loop s track E) =
       NewNativeArray format ?n True # NewDirectByteBuffer (scast ?n * sample_size) True #
       fst ?while"
    "snd (loop s track E) = snd ?while"
    by (auto simp: sinkWriterThreadLoopS16ByteBuffer_def sinkWriterThreadLoopFloatByteBuffer_def
        Let_def)
  from tr run(1) obtain pre' where "fst ?while = pre' @ TrackWriteBuffer b n mode r # post"
    by (auto simp: Cons_eq_append_conv)
  from byte_buffer_while_write [OF this] run(2)
  show "n = scast ?n * sample_size
   \<and> (scast r = n \<longrightarrow>
        (\<exists>post'. post = BufferRewind # post' \<and>
           (post' = [] \<or>
            (\<exists>f b' evs. post' =
               Callback f b' format (getChannelCount track) (this_buffer_size_in_frames s)
                 (this_callback_args s) # evs))))
   \<and> (scast r \<noteq> n \<longrightarrow> post = [] \<and> snd (loop s track E) = Returned)"
    by (auto split: if_splits)
qed

theorem byte_buffer_loops_rewind_witness:
  "fst (sinkWriterThreadLoopS16ByteBuffer (scenario_running kAudioSampleFormatType_S16 True)
          \<lparr>track_id = 1, getAudioFormat = ENCODING_PCM_16BIT, getChannelCount = 2,
           supportsByteBufferMethods = True\<rparr>
          (scenario_worker [pass 1 1024, pass 2 100, pass 3 1024])) =
     [NewNativeArray kAudioSampleFormatType_S16 512 True, NewDirectByteBuffer 1024 True,
      Callback 1 1 kAudioSampleFormatType_S16 2 256 None,
      TrackWriteBuffer 1 1024 WRITE_BLOCKING 1024,
      BufferRewind,
      Callback 1 2 kAudioSampleFormatType_S16 2 256 None,
      TrackWriteBuffer 2 1024 WRITE_BLOCKING 100]
   \<and> snd (sinkWriterThreadLoopS16ByteBuffer (scenario_running kAudioSampleFormatType_S16 True)
          \<lparr>track_id = 1, getAudioFormat = ENCODING_PCM_16BIT, getChannelCount = 2,
           supportsByteBufferMethods = True\<rparr>
          (scenario_worker [pass 1 1024, pass 2 100, pass 3 1024])) = Returned
   \<and> fst (sinkWriterThreadLoopFloatByteBuffer (scenario_running kAudioSampleFormatType_F32 True)
          \<lparr>track_id = 1, getAudioFormat = ENCODING_PCM_FLOAT, getChannelCount = 2,
           supportsByteBufferMethods = True\<rparr>
          (scenario_worker [pass 1 2048, pass 2 2048])) =
     [NewNativeArray kAudioSampleFormatType_F32 512 True, NewDirectByteBuffer 2048 True,
      Callback 1 1 kAudioSampleFormatType_F32 2 256 None,
      TrackWriteBuffer 1 2048 WRITE_BLOCKING 2048,
      BufferRewind,
      Callback 1 2 kAudioSampleFormatType_F32 2 256 None,
      TrackWriteBuffer 2 2048 WRITE_BLOCKING 2048,
      BufferRewind]
   \<and> (\<exists>post'.
         [BufferRewind, Callback 1 (2 :: nat) kAudioSampleFormatType_F32 2 256 None,
          TrackWriteBuffer 2 2048 WRITE_BLOCKING 2048, BufferRewind] = BufferRewind # post'
         \<and> (post' = [] \<or>
              (\<exists>f b' evs. post' = Callback f b' kAudioSampleFormatType_F32 2 256 None # evs)))"
proof -
  let ?s = "scenario_running kAudioSampleFormatType_S16 True"
  let ?t = "\<lparr>track_id = 1, getAudioFormat = ENCODING_PCM_16BIT, getChannelCount = 2,
             supportsByteBufferMethods = True\<rparr>"
  let ?E = "scenario_worker [pass 1 1024, pass 2 100, pass 3 1024]"
  let ?pre = "[NewNativeArray kAudioSampleFormatType_S16 512 True, NewDirectByteBuffer 1024 True,
      Callback 1 1 kAudioSampleFormatType_S16 2 256 None,
      TrackWriteBuffer 1 1024 WRITE_BLOCKING 1024,
      BufferRewind,
      Callback 1 (2 :: nat) kAudioSampleFormatType_S16 2 256 None]"
  have s: "?s = \<lparr>this_vm = Some 1, this_env = Some 1, this_track = Some ?t,
                 this_pt_handle = 7, this_buffer_size_in_frames = 256,
                 this_buffer_block_count = 4, this_callback_func = Some 1,
                 this_callback_args = None, this_stop_request = False\<rparr>"
    by (simp add: scenario_running_def scenario_initialized_def scenario_platform_def
        init_def start_def format_encoding_def init_create_args_def AudioTrackStream_new_def)
  have tr: "fst (sinkWriterThreadLoopS16ByteBuffer ?s ?t ?E) =
              ?pre @ TrackWriteBuffer 2 1024 WRITE_BLOCKING 100 # []"
    unfolding s
    by (simp add: sinkWriterThreadLoopS16ByteBuffer_def scenario_worker_def pass_def)
  have short: "(scast (100 :: int32_t) :: size_t) \<noteq> 1024"
    by simp
  from byte_buffer_loops_rewind [of sinkWriterThreadLoopS16ByteBuffer 2
      kAudioSampleFormatType_S16 ?s ?t ?E ?pre 2 1024 WRITE_BLOCKING 100 "[]"] tr short
  have ret: "snd (sinkWriterThreadLoopS16ByteBuffer ?s ?t ?E) = Returned"
    by simp
  let ?s' = "scenario_running kAudioSampleFormatType_F32 True"
  let ?t' = "\<lparr>track_id = 1, getAudioFormat = ENCODING_PCM_FLOAT, getChannelCount = 2,
              supportsByteBufferMethods = True\<rparr>"
  let ?E' = "scenario_worker [pass 1 2048, pass 2 2048]"
  let ?pre' = "[NewNativeArray kAudioSampleFormatType_F32 512 True,
      NewDirectByteBuffer 2048 True, Callback 1 (1 :: nat) kAudioSampleFormatType_F32 2 256 None]"
  let ?post' = "[BufferRewind, Callback 1 (2 :: nat) kAudioSampleFormatType_F32 2 256 None,
      TrackWriteBuffer 2 2048 WRITE_BLOCKING 2048, BufferRewind]"
  have s': "?s' = \<lparr>this_vm = Some 1, this_env = Some 1, this_track = Some ?t',
                 this_pt_handle = 7, this_buffer_size_in_frames = 256,
                 this_buffer_block_count = 4, this_callback_func = Some 1,
                 this_callback_args = None, this_stop_request = False\<rparr>"
    by (simp add: scenario_running_def scenario_initialized_def scenario_platform_def
        init_def start_def format_encoding_def init_create_args_def AudioTrackStream_new_def)
  have tr': "fst (sinkWriterThreadLoopFloatByteBuffer ?s' ?t' ?E') =
               ?pre' @ TrackWriteBuffer 1 2048 WRITE_BLOCKING 2048 # ?post'"
    unfolding s'
    by (simp add: sinkWriterThreadLoopFloatByteBuffer_def scenario_worker_def pass_def)
  have full: "(scast (2048 :: int32_t) :: size_t) = 2048"
    by simp
  have args: "getChannelCount ?t' = 2 \<and> this_buffer_size_in_frames ?s' = 256
              \<and> this_callback_args ?s' = None"
    unfolding s' by simp
  from byte_buffer_loops_rewind [of sinkWriterThreadLoopFloatByteBuffer 4
      kAudioSampleFormatType_F32 ?s' ?t' ?E' ?pre' 1 2048 WRITE_BLOCKING 2048 ?post'] tr' full
  have "\<exists>post'. ?post' = BufferRewind # post' \<and>
          (post' = [] \<or>
           (\<exists>f b' evs. post' =
              Callback f b' kAudioSampleFormatType_F32 (getChannelCount ?t')
                (this_buffer_size_in_frames ?s') (this_callback_args ?s') # evs))"
    by blast
  then have rew: "\<exists>post'. ?post' = BufferRewind # post' \<and>
          (post' = [] \<or>
           (\<exists>f b' evs. post' = Callback f b' kAudioSampleFormatType_F32 2 256 None # evs))"
    unfolding args [THEN conjunct1] args [THEN conjunct2, THEN conjunct1]
      args [THEN conjunct2, THEN conjunct2] .
  from tr ret tr' rew show ?thesis
    by simp
qed

subsection \<open>Every loop returns once it sees the stop flag or a short write\<close>

lemma S16_while_returns:
  "this_callback_func s \<noteq> None \<Longrightarrow>
   \<exists>it \<in> set its. stop_seen it \<or> write_result it \<noteq> num_data_write \<Longrightarrow>
   snd (sinkWriterThreadLoopS16_while s num_channels frames num_data_write its) = Returned"
  by (induction its) (auto split: option.splits)

lemma Float_while_returns:
  "\<exists>it \<in> set its. stop_seen it \<or> write_result it \<noteq> num_data_write \<Longrightarrow>
   snd (sinkWriterThreadLoopFloat_while buffer num_data_write its) = Returned"
  by (induction its) auto

lemma ByteBuffer_while_returns:
  "this_callback_func s \<noteq> None \<Longrightarrow>
   \<exists>it \<in> set its. stop_seen it \<or> scast (write_result it) \<noteq> bb_size \<Longrightarrow>
   snd (sinkWriterThreadLoopByteBuffer_while s format num_channels frames bb_size its) = Returned"
  by (induction its) (auto split: option.splits)

lemma selected_loop_returns:
  assumes "this_callback_func s \<noteq> None" and "native_new_ok E"
    and "getAudioFormat track = ENCODING_PCM_FLOAT \<and> \<not> supportsByteBufferMethods track
           \<longrightarrow> sine_fill_in_bounds s track"
    and "\<exists>it \<in> set (iterations E). stop_seen it \<or> \<not> write_completes s track (write_result it)"
  shows "snd (selected_loop s track E) = Returned"
proof (cases "getAudioFormat track")
  case ENCODING_PCM_16BIT
  with assms show ?thesis
    by (auto simp: selected_loop_def sinkWriterThreadLoopS16_def
        sinkWriterThreadLoopS16ByteBuffer_def write_completes_def Let_def
        intro!: S16_while_returns ByteBuffer_while_returns)
next
  case ENCODING_PCM_FLOAT
  with assms show ?thesis
    by (auto simp: selected_loop_def sinkWriterThreadLoopFloat_def
        sinkWriterThreadLoopFloatByteBuffer_def write_completes_def Let_def
        intro!: Float_while_returns ByteBuffer_while_returns)
next
  case (ENCODING_other x)
  then show ?thesis
    by (simp add: selected_loop_def)
qed

lemma selected_loop_allocation_failure:
  assumes "if supportsByteBufferMethods track then native_new_ok E \<and> \<not> byte_buffer_ok E
           else \<not> jarray_ok E"
  shows "snd (selected_loop s track E) = Returned"
  using assms
  by (cases "getAudioFormat track")
     (auto simp: selected_loop_def sinkWriterThreadLoopS16_def sinkWriterThreadLoopFloat_def
        sinkWriterThreadLoopS16ByteBuffer_def sinkWriterThreadLoopFloatByteBuffer_def Let_def
        split: if_splits)

subsection \<open>No loop touches the transport controls of the sink\<close>

lemma S16_while_no_transport:
  "TrackPause \<notin> set (fst (sinkWriterThreadLoopS16_while s num_channels frames n its))
   \<and> TrackStop \<notin> set (fst (sinkWriterThreadLoopS16_while s num_channels frames n its))"
  by (induction its) (auto split: option.splits)

lemma Float_while_no_transport:
  "TrackPause \<notin> set (fst (sinkWriterThreadLoopFloat_while buffer n its))
   \<and> TrackStop \<notin> set (fst (sinkWriterThreadLoopFloat_while buffer n its))"
  by (induction its) auto

lemma ByteBuffer_while_no_transport:
  "TrackPause \<notin> set (fst (sinkWriterThreadLoopByteBuffer_while s format num_channels frames
                             bb_size its))
   \<and> TrackStop \<notin> set (fst (sinkWriterThreadLoopByteBuffer_while s format num_channels frames
                              bb_size its))"
  by (induction its) (auto split: option.splits)

lemma selected_loop_no_transport:
  "TrackPause \<notin> set (fst (selected_loop s track E))
   \<and> TrackStop \<notin> set (fst (selected_loop s track E))"
  by (cases "getAudioFormat track")
     (simp_all add: selected_loop_def sinkWriterThreadLoopS16_def sinkWriterThreadLoopFloat_def
        sinkWriterThreadLoopS16ByteBuffer_def sinkWriterThreadLoopFloatByteBuffer_def Let_def
        S16_while_no_transport Float_while_no_transport ByteBuffer_while_no_transport)

subsection \<open>Pause and stop after the loop\<close>

text \<open>
  Where the selected loop returns, the worker does what the specification asks: after a
  successful \<^verbatim>\<open>play\<close> its calls are \<^verbatim>\<open>play\<close>, those of the loop, then pause and stop;
  after a failed \<^verbatim>\<open>play\<close> it makes no other call on the sink. Where the loop does not
  return, because the inputs ran out or the process died, neither pause nor stop is
  called.
\<close>

lemma worker_after_loop:
  assumes "this_track s = Some track"
  shows "play_ok E \<Longrightarrow> snd (selected_loop s track E) = Returned \<Longrightarrow>
           sinkWriterThreadProcess s E =
             (TrackPlay True # fst (selected_loop s track E) @ [TrackPause, TrackStop], Returned)"
    and "play_ok E \<Longrightarrow> snd (selected_loop s track E) \<noteq> Returned \<Longrightarrow>
           sinkWriterThreadProcess s E =
             (TrackPlay True # fst (selected_loop s track E), snd (selected_loop s track E))"
    and "\<not> play_ok E \<Longrightarrow> sinkWriterThreadProcess s E = ([TrackPlay False], Returned)"
  using assms by (simp_all add: sinkWriterThreadProcess_def and_then_def then_run_def)

lemma worker_short_write_scenario:
  "sinkWriterThreadProcess (scenario_running kAudioSampleFormatType_S16 False)
     (scenario_worker [pass 1 512, pass 2 512, pass 3 512, pass 4 512, pass 5 100, pass 6 512]) =
     ([TrackPlay True, NewShortArray 512 True,
       ArrayAcquire, Callback 1 1 kAudioSampleFormatType_S16 2 256 None, ArrayRelease,
       TrackWrite 1 0 512 None 512,
       ArrayAcquire, Callback 1 2 kAudioSampleFormatType_S16 2 256 None, ArrayRelease,
       TrackWrite 2 0 512 None 512,
       ArrayAcquire, Callback 1 3 kAudioSampleFormatType_S16 2 256 None, ArrayRelease,
       TrackWrite 3 0 512 None 512,
       ArrayAcquire, Callback 1 4 kAudioSampleFormatType_S16 2 256 None, ArrayRelease,
       TrackWrite 4 0 512 None 512,
       ArrayAcquire, Callback 1 5 kAudioSampleFormatType_S16 2 256 None, ArrayRelease,
       TrackWrite 5 0 512 None 100,
       TrackPause, TrackStop], Returned)"
proof -
  let ?s = "scenario_running kAudioSampleFormatType_S16 False"
  let ?t = "\<lparr>track_id = 1, getAudioFormat = ENCODING_PCM_16BIT, getChannelCount = 2,
             supportsByteBufferMethods = False\<rparr>"
  let ?E = "scenario_worker
              [pass 1 512, pass 2 512, pass 3 512, pass 4 512, pass 5 100, pass 6 512]"
  have s: "?s = \<lparr>this_vm = Some 1, this_env = Some 1, this_track = Some ?t,
                 this_pt_handle = 7, this_buffer_size_in_frames = 256,
                 this_buffer_block_count = 4, this_callback_func = Some 1,
                 this_callback_args = None, this_stop_request = False\<rparr>"
    by (simp add: scenario_running_def scenario_initialized_def scenario_platform_def
        init_def start_def format_encoding_def init_create_args_def AudioTrackStream_new_def)
  have t: "this_track ?s = Some ?t" and cb: "this_callback_func ?s \<noteq> None"
    unfolding s by simp_all
  have E: "play_ok ?E" "native_new_ok ?E"
    by (simp_all add: scenario_worker_def)
  have short: "\<exists>it \<in> set (iterations ?E).
                 stop_seen it \<or> \<not> write_completes ?s ?t (write_result it)"
    unfolding s by (simp add: scenario_worker_def pass_def write_completes_def)
  have tr: "fst (selected_loop ?s ?t ?E) =
      [NewShortArray 512 True,
       ArrayAcquire, Callback 1 1 kAudioSampleFormatType_S16 2 256 None, ArrayRelease,
       TrackWrite 1 0 512 None 512,
       ArrayAcquire, Callback 1 2 kAudioSampleFormatType_S16 2 256 None, ArrayRelease,
       TrackWrite 2 0 512 None 512,
       ArrayAcquire, Callback 1 3 kAudioSampleFormatType_S16 2 256 None, ArrayRelease,
       TrackWrite 3 0 512 None 512,
       ArrayAcquire, Callback 1 4 kAudioSampleFormatType_S16 2 256 None, ArrayRelease,
       TrackWrite 4 0 512 None 512,
       ArrayAcquire, Callback 1 5 kAudioSampleFormatType_S16 2 256 None, ArrayRelease,
       TrackWrite 5 0 512 None 100]"
    unfolding s
    by (simp add: selected_loop_def sinkWriterThreadLoopS16_def scenario_worker_def pass_def)
  have "snd (selected_loop ?s ?t ?E) = Returned"
    using cb E(2) short by (intro selected_loop_returns) simp_all
  from worker_after_loop(1) [OF t E(1) this] show ?thesis
    unfolding tr by simp
qed


subsection \<open>Which loops fill the block before they write it\<close>

lemma S16_while_filled_writes:
  "filled_writes None (fst (sinkWriterThreadLoopS16_while s num_channels frames n its))"
  by (induction its) (auto split: option.splits)

lemma ByteBuffer_while_filled_writes:
  "filled_writes None
     (fst (sinkWriterThreadLoopByteBuffer_while s format num_channels frames bb_size its))"
  by (induction its) (auto split: option.splits)

lemma callback_loops_fill_before_write:
  "filled_writes None (fst (sinkWriterThreadLoopS16 s track E))
   \<and> filled_writes None (fst (sinkWriterThreadLoopS16ByteBuffer s track E))
   \<and> filled_writes None (fst (sinkWriterThreadLoopFloatByteBuffer s track E))"
  by (simp add: sinkWriterThreadLoopS16_def sinkWriterThreadLoopS16ByteBuffer_def
      sinkWriterThreadLoopFloatByteBuffer_def Let_def S16_while_filled_writes
      ByteBuffer_while_filled_writes)

lemma S16_while_callback_arguments:
  "e \<in> set (fst (sinkWriterThreadLoopS16_while s num_channels frames n its)) \<Longrightarrow>
   is_callback e \<Longrightarrow>
   \<exists>f b. e = Callback f b kAudioSampleFormatType_S16 num_channels frames (this_callback_args s)"
  by (induction its) (auto split: option.splits if_splits)

lemma Float_while_never_calls_back:
  "e \<in> set (fst (sinkWriterThreadLoopFloat_while buffer n its)) \<Longrightarrow> \<not> is_callback e"
  by (induction its) (auto split: if_splits)

lemma Float_loop_never_calls_back:
  "e \<in> set (fst (sinkWriterThreadLoopFloat s track E)) \<Longrightarrow> \<not> is_callback e"
  by (auto simp: sinkWriterThreadLoopFloat_def Let_def dest: Float_while_never_calls_back
      split: if_splits)

text \<open>
  C1 fails in the float loop over a Java array. On a float sink without byte-buffer
  support, with the stop flag clear for two passes and both writes complete, the loop
  writes the sine block twice and never calls the render callback; the writes are not
  of a block the callback filled.
\<close>

theorem float_array_loop_skips_callback:
  "sinkWriterThreadLoopFloat (scenario_running kAudioSampleFormatType_F32 False)
     \<lparr>track_id = 1, getAudioFormat = ENCODING_PCM_FLOAT, getChannelCount = 2,
      supportsByteBufferMethods = False\<rparr>
     (scenario_worker [pass 1 512, pass 2 512, stop_pass]) =
     ([NewFloatArray 512 True, ArrayAcquire, SineFill 0, ArrayRelease,
       TrackWrite 0 0 512 (Some WRITE_BLOCKING) 512,
       TrackWrite 0 0 512 (Some WRITE_BLOCKING) 512], Returned)
   \<and> \<not> filled_writes None
         (fst (sinkWriterThreadLoopFloat (scenario_running kAudioSampleFormatType_F32 False)
            \<lparr>track_id = 1, getAudioFormat = ENCODING_PCM_FLOAT, getChannelCount = 2,
             supportsByteBufferMethods = False\<rparr>
            (scenario_worker [pass 1 512, pass 2 512, stop_pass])))
   \<and> this_track (scenario_running kAudioSampleFormatType_F32 False) =
       Some \<lparr>track_id = 1, getAudioFormat = ENCODING_PCM_FLOAT, getChannelCount = 2,
             supportsByteBufferMethods = False\<rparr>"
  by (simp add: sinkWriterThreadLoopFloat_def scenario_worker_def pass_def stop_pass_def
      scenario_running_def scenario_initialized_def scenario_platform_def
      init_def start_def format_encoding_def init_create_args_def AudioTrackStream_new_def
      then_run_def sine_fill_in_bounds_def)

end
